theory Spec2Isabelle
  imports Main
begin

section \<open>generate\_splat.py: the wrapper around the SHARP command-line tool\<close>

text \<open>
  The repository is one Python script, \<^verbatim>\<open>Scripts/generate_splat.py\<close>, whose function
  \<^verbatim>\<open>main\<close> checks its arguments, prepares the output directory, announces the start,
  runs \<^verbatim>\<open>sharp predict\<close> as a subprocess and reports the result as JSON on standard
  output. Everything it does is an effect on the world outside the script, so the model
  is a state-passing one: \<open>main\<close> takes the argument vector and the filesystem, and
  returns how the process ended together with the filesystem it left and the ordered
  trace of the effects it performed.

  Python strings are modelled as \<open>string\<close>; a dictionary with string keys and values
  is an association list in insertion order.
\<close>

subsection \<open>Paths: \<^verbatim>\<open>pathlib.Path\<close> on a POSIX system\<close>

text \<open>
  A path object holds what pathlib keeps after parsing: the root (\<^verbatim>\<open>''\<close>, \<^verbatim>\<open>'/'\<close> or
  \<^verbatim>\<open>'//'\<close>) and the remaining components, with empty components and \<^verbatim>\<open>'.'\<close> dropped.
\<close>

record path =
  root :: string
  tail :: "string list"

text \<open>\<^verbatim>\<open>str.split(sep)\<close> for a one-character separator.\<close>

fun py_split :: "char \<Rightarrow> string \<Rightarrow> string list" where
  "py_split sep [] = [[]]"
| "py_split sep (c # cs) =
     (if c = sep then [] # py_split sep cs
      else (case py_split sep cs of [] \<Rightarrow> [[c]] | x # xs \<Rightarrow> (c # x) # xs))"

text \<open>\<^verbatim>\<open>sep.join(xs)\<close>.\<close>

fun join :: "string \<Rightarrow> string list \<Rightarrow> string" where
  "join sep [] = []"
| "join sep [x] = x"
| "join sep (x # y # ys) = x @ sep @ join sep (y # ys)"

text \<open>
  \<^verbatim>\<open>posixpath.splitroot\<close>: one leading slash or three and more give the root \<^verbatim>\<open>'/'\<close>,
  exactly two give \<^verbatim>\<open>'//'\<close>.
\<close>

definition splitroot :: "string \<Rightarrow> string \<times> string" where
  "splitroot p =
     (if take 1 p \<noteq> ''/'' then ('''', p)
      else if take 1 (drop 1 p) \<noteq> ''/'' \<or> take 1 (drop 2 p) = ''/'' then (''/'', drop 1 p)
      else (take 2 p, drop 2 p))"

definition Path :: "string \<Rightarrow> path" where
  "Path s =
     (case splitroot s of
        (r, rel) \<Rightarrow> \<lparr>root = r, tail = filter (\<lambda>x. x \<noteq> [] \<and> x \<noteq> ''.'') (py_split CHR ''/'' rel)\<rparr>)"

text \<open>\<^verbatim>\<open>str(p)\<close>: the root followed by the components joined with slashes, or \<^verbatim>\<open>'.'\<close>.\<close>

definition str :: "path \<Rightarrow> string" where
  "str p = (let s = root p @ join ''/'' (tail p) in if s = [] then ''.'' else s)"

subsection \<open>The operating system as the script sees it\<close>

text \<open>
  The exceptions the library calls of the script can raise. None is caught by the
  script, so each ends the process with a traceback. \<open>OSError name\<close> is an
  \<^verbatim>\<open>OSError\<close> with another error number, given by its name, and \<open>OtherError\<close> any
  other exception.
\<close>

datatype exn =
  FileNotFoundError | FileExistsError | NotADirectoryError | PermissionError
  | OSError string
  | OtherError string

text \<open>\<^verbatim>\<open>subprocess.CompletedProcess\<close> with captured text streams.\<close>

record completed_process =
  returncode :: int
  stdout :: string
  stderr :: string

text \<open>
  What \<^verbatim>\<open>subprocess.run\<close> does: the child runs to completion and leaves a filesystem,
  or the call raises (the executable is not found, the output cannot be decoded), or the
  child never exits and the call blocks for ever (the script sets no timeout).
\<close>

datatype 'fs run_result =
  Completed completed_process 'fs
  | Raised exn
  | Never

text \<open>
  The library and system calls of the script are parameters of the model, over any
  type \<open>'fs\<close> of filesystem states:
  \<^item> \<open>path_exists\<close> is \<^verbatim>\<open>Path.exists()\<close>;
  \<^item> \<open>path_mkdir\<close> is \<^verbatim>\<open>Path.mkdir(parents=True, exist_ok=True)\<close>;
  \<^item> \<open>subprocess_run\<close> is \<^verbatim>\<open>subprocess.run(args, capture_output=True, text=True)\<close>;
  \<^item> \<open>path_glob\<close> is \<^verbatim>\<open>list(Path.glob(pattern))\<close>.
\<close>

record 'fs os =
  path_exists :: "'fs \<Rightarrow> path \<Rightarrow> exn + bool"
  path_mkdir :: "'fs \<Rightarrow> path \<Rightarrow> exn + 'fs"
  subprocess_run :: "'fs \<Rightarrow> string list \<Rightarrow> 'fs run_result"
  path_glob :: "'fs \<Rightarrow> path \<Rightarrow> string \<Rightarrow> exn + path list"

subsection \<open>The process: its effects and how it ends\<close>

type_synonym json = "(string \<times> string) list"

text \<open>
  One event per effect of the script, in the order performed. \<open>Print d\<close> is
  \<^verbatim>\<open>print(json.dumps(d))\<close>: one line holding the JSON text of the dictionary \<open>d\<close> is
  written to the buffer of standard output. \<open>Flush\<close> is \<^verbatim>\<open>sys.stdout.flush()\<close>.
  \<open>Stat\<close>, \<open>Mkdir\<close>, \<open>Spawn\<close> and \<open>Glob\<close> record the calls of \<open>path_exists\<close>,
  \<open>path_mkdir\<close>, \<open>subprocess_run\<close> and \<open>path_glob\<close>, whether they return or raise.
  Writing to standard output is taken to succeed: a closed pipe is outside the model.
\<close>

datatype event =
  Stat path
  | Mkdir path
  | Print json
  | Flush
  | Spawn "string list"
  | Glob path string

record 'fs proc =
  files :: 'fs
  trace :: "event list"

text \<open>
  How the process ends: \<open>Returned\<close> when \<^verbatim>\<open>main\<close> returns, \<open>SysExit n\<close> for
  \<^verbatim>\<open>sys.exit(n)\<close>, \<open>Uncaught e\<close> for an exception nothing catches, \<open>Blocked\<close> when the
  subprocess call never returns.
\<close>

datatype outcome = Returned | SysExit int | Uncaught exn | Blocked

text \<open>
  The exit status of the process, if it ends: 0 after a return, the argument of
  \<^verbatim>\<open>sys.exit\<close>, and 1 after a traceback.
\<close>

fun exit_status :: "outcome \<Rightarrow> int option" where
  "exit_status Returned = Some 0"
| "exit_status (SysExit n) = Some (n mod 256)"
| "exit_status (Uncaught e) = Some 1"
| "exit_status Blocked = None"

definition log :: "event \<Rightarrow> 'fs proc \<Rightarrow> 'fs proc" where
  "log e s = s\<lparr>trace := trace s @ [e]\<rparr>"

definition print_json :: "json \<Rightarrow> 'fs proc \<Rightarrow> 'fs proc" where
  "print_json d s = log (Print d) s"

definition flush :: "'fs proc \<Rightarrow> 'fs proc" where
  "flush s = log Flush s"

definition sys_exit :: "int \<Rightarrow> 'fs proc \<Rightarrow> 'fs proc \<times> outcome" where
  "sys_exit n s = (s, SysExit n)"

definition call_exists :: "'fs os \<Rightarrow> path \<Rightarrow> 'fs proc \<Rightarrow> (exn + bool) \<times> 'fs proc" where
  "call_exists os p s = (path_exists os (files s) p, log (Stat p) s)"

definition call_mkdir :: "'fs os \<Rightarrow> path \<Rightarrow> 'fs proc \<Rightarrow> (exn + unit) \<times> 'fs proc" where
  "call_mkdir os p s =
     (case path_mkdir os (files s) p of
        Inl e \<Rightarrow> (Inl e, log (Mkdir p) s)
      | Inr fs' \<Rightarrow> (Inr (), log (Mkdir p) (s\<lparr>files := fs'\<rparr>)))"

definition call_run ::
  "'fs os \<Rightarrow> string list \<Rightarrow> 'fs proc \<Rightarrow> (outcome + completed_process) \<times> 'fs proc" where
  "call_run os args s =
     (case subprocess_run os (files s) args of
        Raised e \<Rightarrow> (Inl (Uncaught e), log (Spawn args) s)
      | Never \<Rightarrow> (Inl Blocked, log (Spawn args) s)
      | Completed r fs' \<Rightarrow> (Inr r, log (Spawn args) (s\<lparr>files := fs'\<rparr>)))"

definition call_glob ::
  "'fs os \<Rightarrow> path \<Rightarrow> string \<Rightarrow> 'fs proc \<Rightarrow> (exn + path list) \<times> 'fs proc" where
  "call_glob os p pat s = (path_glob os (files s) p pat, log (Glob p pat) s)"

subsection \<open>The script\<close>

text \<open>
  \<^verbatim>\<open>main\<close>, statement by statement. \<open>argv\<close> is \<^verbatim>\<open>sys.argv\<close>, program name first.
\<close>

definition main :: "'fs os \<Rightarrow> string list \<Rightarrow> 'fs \<Rightarrow> 'fs proc \<times> outcome" where
  "main os argv fs =
     (let s0 = \<lparr>files = fs, trace = []\<rparr> in
      if length argv < 3 then
        sys_exit 1
          (print_json [(''error'', ''Usage: generate_splat.py <input_image> <output_dir>'')] s0)
      else
        let input_image = Path (argv ! 1);
            output_dir = Path (argv ! 2)
        in
        case call_exists os input_image s0 of
          (Inl e, s1) \<Rightarrow> (s1, Uncaught e)
        | (Inr False, s1) \<Rightarrow>
            sys_exit 1
              (print_json [(''error'', ''Input image not found: '' @ str input_image)] s1)
        | (Inr True, s1) \<Rightarrow>
           (case call_mkdir os output_dir s1 of
              (Inl e, s2) \<Rightarrow> (s2, Uncaught e)
            | (Inr u, s2) \<Rightarrow>
               let s3 = print_json
                          [(''status'', ''starting''), (''message'', ''Loading SHARP model...'')] s2;
                   s4 = flush s3
               in
               (case call_run os
                       [''sharp'', ''predict'', ''-i'', str input_image, ''-o'', str output_dir] s4 of
                  (Inl stop, s5) \<Rightarrow> (s5, stop)
                | (Inr result, s5) \<Rightarrow>
                   if returncode result \<noteq> 0 then
                     sys_exit 1
                       (print_json [(''error'', ''SHARP failed: '' @ stderr result)] s5)
                   else
                     (case call_glob os output_dir ''*.ply'' s5 of
                        (Inl e, s6) \<Rightarrow> (s6, Uncaught e)
                      | (Inr ply_files, s6) \<Rightarrow>
                         if ply_files = [] then
                           sys_exit 1 (print_json [(''error'', ''No .ply file generated'')] s6)
                         else
                           let output_ply = ply_files ! 0 in
                           (print_json
                              [(''status'', ''complete''),
                               (''output_path'', str output_ply),
                               (''message'', ''3D splat generated successfully!'')] s6,
                            Returned)))))"

subsection \<open>Reading a trace\<close>

text \<open>The lines written to standard output, in order.\<close>

fun printed :: "event list \<Rightarrow> json list" where
  "printed [] = []"
| "printed (Print d # es) = d # printed es"
| "printed (e # es) = printed es"

text \<open>
  What has reached the reader of standard output after the events \<open>es\<close>, when \<open>buf\<close>
  was waiting in the buffer before them: a printed line waits in the buffer until a
  flush (the buffering of a pipe; standard output is also flushed when the process ends).
\<close>

fun flushed :: "event list \<Rightarrow> json list \<Rightarrow> json list" where
  "flushed [] buf = []"
| "flushed (Print d # es) buf = flushed es (buf @ [d])"
| "flushed (Flush # es) buf = buf @ flushed es []"
| "flushed (e # es) buf = flushed es buf"

fun is_spawn :: "event \<Rightarrow> bool" where
  "is_spawn (Spawn args) = True"
| "is_spawn e = False"

fun is_glob :: "event \<Rightarrow> bool" where
  "is_glob (Glob p pat) = True"
| "is_glob e = False"

text \<open>The events before the subprocess call.\<close>

definition before_spawn :: "event list \<Rightarrow> event list" where
  "before_spawn es = takeWhile (\<lambda>e. \<not> is_spawn e) es"

text \<open>
  The three shapes of message (section 3 of the specification): an ErrorMessage has the
  single key \<^verbatim>\<open>error\<close>, the other two are told apart by their \<^verbatim>\<open>status\<close>.
\<close>

definition is_error :: "json \<Rightarrow> bool" where
  "is_error d = (map fst d = [''error''])"

definition is_complete :: "json \<Rightarrow> bool" where
  "is_complete d = (map_of d ''status'' = Some ''complete'')"

definition is_starting :: "json \<Rightarrow> bool" where
  "is_starting d = (map_of d ''status'' = Some ''starting'')"

definition is_terminal :: "json \<Rightarrow> bool" where
  "is_terminal d = (is_error d \<or> is_complete d)"

definition starting_message :: json where
  "starting_message = [(''status'', ''starting''), (''message'', ''Loading SHARP model...'')]"

subsection \<open>A POSIX filesystem\<close>

text \<open>
  A concrete filesystem to run the script on: the entries by their absolute path (the
  list of components below \<^verbatim>\<open>/\<close>), in the order in which a directory scan enumerates
  them, and the working directory of the process. Symbolic links and permissions are
  not modelled.
\<close>

datatype kind = Regular | Directory | Special

record posix =
  entries :: "(string list \<times> kind) list"
  cwd :: "string list"

text \<open>The root directory always exists.\<close>

definition kind_of :: "posix \<Rightarrow> string list \<Rightarrow> kind option" where
  "kind_of fs q = (if q = [] then Some Directory else map_of (entries fs) q)"

text \<open>The longest name a directory can hold (\<^verbatim>\<open>NAME_MAX\<close>).\<close>

definition name_max :: nat where
  "name_max = 255"

text \<open>
  Path resolution as the kernel does it: from the directory \<open>cur\<close>, each component is
  looked up in a directory that must exist; a component longer than \<open>name_max\<close> is
  refused with \<^verbatim>\<open>ENAMETOOLONG\<close>; \<^verbatim>\<open>..\<close> leads to the parent. The result is the absolute
  path the name stands for, whether or not an entry is there.
\<close>

fun namei :: "posix \<Rightarrow> string list \<Rightarrow> string list \<Rightarrow> exn + string list" where
  "namei fs cur [] = Inr cur"
| "namei fs cur (c # cs) =
     (case kind_of fs cur of
        None \<Rightarrow> Inl FileNotFoundError
      | Some Directory \<Rightarrow>
          if name_max < length c then Inl (OSError ''ENAMETOOLONG'')
          else namei fs (if c = ''..'' then butlast cur else cur @ [c]) cs
      | Some k \<Rightarrow> Inl NotADirectoryError)"

definition resolve :: "posix \<Rightarrow> path \<Rightarrow> exn + string list" where
  "resolve fs p = namei fs (if root p = [] then cwd fs else []) (tail p)"

text \<open>
  Whether the path names an entry of the filesystem, of whatever kind; a path that
  cannot be resolved names none.
\<close>

definition names_entry :: "posix \<Rightarrow> path \<Rightarrow> bool" where
  "names_entry fs p =
     (case resolve fs p of
        Inl e \<Rightarrow> False
      | Inr q \<Rightarrow> kind_of fs q \<noteq> None)"

text \<open>
  \<^verbatim>\<open>pathlib._ignore_error\<close>: the errors of \<^verbatim>\<open>stat\<close> that pathlib (up to Python 3.12)
  takes as the answer \<^verbatim>\<open>False\<close>: a missing entry (\<^verbatim>\<open>ENOENT\<close>) and a non-directory on
  the way (\<^verbatim>\<open>ENOTDIR\<close>); \<^verbatim>\<open>EBADF\<close> and \<^verbatim>\<open>ELOOP\<close> do not arise in this filesystem.
  Every other error is raised again.
\<close>

fun ignore_error :: "exn \<Rightarrow> bool" where
  "ignore_error FileNotFoundError = True"
| "ignore_error NotADirectoryError = True"
| "ignore_error e = False"

text \<open>
  \<^verbatim>\<open>Path.exists()\<close>: whether \<^verbatim>\<open>stat\<close> succeeds, whatever kind of entry it finds; an
  error of \<^verbatim>\<open>stat\<close> is answered with \<^verbatim>\<open>False\<close> when \<open>ignore_error\<close> says so and raised
  otherwise, as for a name that is too long.
\<close>

definition posix_exists :: "posix \<Rightarrow> path \<Rightarrow> exn + bool" where
  "posix_exists fs p =
     (case resolve fs p of
        Inl e \<Rightarrow> if ignore_error e then Inr False else Inl e
      | Inr q \<Rightarrow> Inr (kind_of fs q \<noteq> None))"

text \<open>
  Whether the path names a directory. Inside \<^verbatim>\<open>mkdir\<close> pathlib asks this with
  \<^verbatim>\<open>Path.is_dir()\<close>, which raises where \<open>ignore_error\<close> does not hold; there the
  answer \<open>False\<close> of the model makes \<^verbatim>\<open>mkdir\<close> raise the error of the system call, an
  \<^verbatim>\<open>OSError\<close> of the same error number.
\<close>

definition is_dir :: "posix \<Rightarrow> path \<Rightarrow> bool" where
  "is_dir fs p =
     (case resolve fs p of
        Inl e \<Rightarrow> False
      | Inr q \<Rightarrow> kind_of fs q = Some Directory)"

text \<open>\<^verbatim>\<open>os.mkdir\<close>: the system call, which creates one directory.\<close>

definition os_mkdir :: "posix \<Rightarrow> path \<Rightarrow> exn + posix" where
  "os_mkdir fs p =
     (case resolve fs p of
        Inl e \<Rightarrow> Inl e
      | Inr q \<Rightarrow>
          if kind_of fs q \<noteq> None then Inl FileExistsError
          else Inr (fs\<lparr>entries := entries fs @ [(q, Directory)]\<rparr>))"

text \<open>\<^verbatim>\<open>PurePath.parent\<close>: the path without its last component; a path without components is its own parent.\<close>

definition parent :: "path \<Rightarrow> path" where
  "parent p = p\<lparr>tail := butlast (tail p)\<rparr>"

text \<open>
  Modelled from the spec: \<^verbatim>\<open>Path.mkdir\<close> is the Python standard library's and not part
  of the repository's sources. Section 4.2 of the specification describes the step as
  ensuring that the path exists as a directory, creating all missing intermediate
  segments, a no-op on a directory that exists, and fatal when creation fails. The
  model realises these words the way pathlib does: \<open>mkdir_exist_ok\<close> is the call with
  \<^verbatim>\<open>parents=False, exist_ok=True\<close> (any error but a missing parent is forgiven when the
  path is a directory), and \<open>Path_mkdir\<close> is the call with \<^verbatim>\<open>parents=True, exist_ok=True\<close>,
  which on a missing parent first creates the parent in the same way.
\<close>

definition mkdir_exist_ok :: "posix \<Rightarrow> path \<Rightarrow> exn + posix" where
  "mkdir_exist_ok fs p =
     (case os_mkdir fs p of
        Inr fs' \<Rightarrow> Inr fs'
      | Inl e \<Rightarrow>
          if e = FileNotFoundError then Inl e
          else if is_dir fs p then Inr fs else Inl e)"

function Path_mkdir :: "posix \<Rightarrow> path \<Rightarrow> exn + posix" where
  "Path_mkdir fs p =
     (case os_mkdir fs p of
        Inr fs' \<Rightarrow> Inr fs'
      | Inl e \<Rightarrow>
          if e = FileNotFoundError then
            if parent p = p then Inl e
            else (case Path_mkdir fs (parent p) of
                    Inl e' \<Rightarrow> Inl e'
                  | Inr fs1 \<Rightarrow> mkdir_exist_ok fs1 p)
          else if is_dir fs p then Inr fs else Inl e)"
  by pat_completeness auto
termination
proof (relation "measure (\<lambda>(fs, p). length (tail p))")
  fix fs :: posix and p :: path
  assume "parent p \<noteq> p"
  then have "tail p \<noteq> []"
    by (auto simp: parent_def)
  then show "((fs, parent p), (fs, p)) \<in> measure (\<lambda>(fs, p). length (tail p))"
    by (simp add: parent_def)
qed simp

declare Path_mkdir.simps [simp del]

text \<open>
  \<^verbatim>\<open>fnmatch.fnmatchcase(name, pat)\<close> for patterns made of literal characters, \<^verbatim>\<open>*\<close>
  and \<^verbatim>\<open>?\<close>, which covers the one pattern of the script, \<^verbatim>\<open>*.ply\<close>.
\<close>

fun fnmatchcase :: "string \<Rightarrow> string \<Rightarrow> bool" where
  "fnmatchcase [] [] = True"
| "fnmatchcase (c # cs) [] = False"
| "fnmatchcase [] (p # ps) = (p = CHR ''*'' \<and> fnmatchcase [] ps)"
| "fnmatchcase (c # cs) (p # ps) =
     (if p = CHR ''*'' then fnmatchcase (c # cs) ps \<or> fnmatchcase cs (p # ps)
      else (p = CHR ''?'' \<or> p = c) \<and> fnmatchcase cs ps)"

text \<open>The names in the directory at the absolute path \<open>q\<close>, in enumeration order.\<close>

definition scandir :: "posix \<Rightarrow> string list \<Rightarrow> string list" where
  "scandir fs q =
     map (\<lambda>(e, k). last e) (filter (\<lambda>(e, k). e \<noteq> [] \<and> butlast e = q) (entries fs))"

text \<open>
  \<^verbatim>\<open>list(p.glob(pat))\<close> for a pattern of one component: the entries of the directory
  whose names match, in enumeration order, each as the path \<open>p\<close> extended by the name;
  nothing when \<open>p\<close> is not a directory. The check for a directory raises as
  \<^verbatim>\<open>Path.exists()\<close> does.
\<close>

definition posix_glob :: "posix \<Rightarrow> path \<Rightarrow> string \<Rightarrow> exn + path list" where
  "posix_glob fs p pat =
     (case resolve fs p of
        Inl e \<Rightarrow> if ignore_error e then Inr [] else Inl e
      | Inr q \<Rightarrow>
          if kind_of fs q = Some Directory then
            Inr (map (\<lambda>name. p\<lparr>tail := tail p @ [name]\<rparr>)
                   (filter (\<lambda>name. fnmatchcase name pat) (scandir fs q)))
          else Inr [])"

text \<open>
  The operating system over this filesystem; \<open>sharp\<close> is what the executable found for
  the arguments does to it.
\<close>

definition posix_os :: "(string list \<Rightarrow> posix \<Rightarrow> posix run_result) \<Rightarrow> posix os" where
  "posix_os sharp =
     \<lparr>path_exists = posix_exists,
      path_mkdir = Path_mkdir,
      subprocess_run = (\<lambda>fs args. sharp args fs),
      path_glob = posix_glob\<rparr>"

text \<open>\<open>fs'\<close> is \<open>fs\<close> with directories added, and nothing else changed.\<close>

definition extends :: "posix \<Rightarrow> posix \<Rightarrow> bool" where
  "extends fs fs' \<longleftrightarrow> (\<exists>ds. fs' = fs\<lparr>entries := entries fs @ map (\<lambda>q. (q, Directory)) ds\<rparr>)"

subsection \<open>Reading a run\<close>

text \<open>
  A run is what \<open>main\<close> returns. \<open>emitted\<close> are the lines it wrote to standard output,
  \<open>exit_code\<close> the exit status of the process, \<open>effects\<close> the whole trace and
  \<open>files_left\<close> the filesystem at the end.
\<close>

definition emitted :: "'fs proc \<times> outcome \<Rightarrow> json list" where
  "emitted r = printed (trace (fst r))"

definition exit_code :: "'fs proc \<times> outcome \<Rightarrow> int option" where
  "exit_code r = exit_status (snd r)"

definition effects :: "'fs proc \<times> outcome \<Rightarrow> event list" where
  "effects r = trace (fst r)"

definition files_left :: "'fs proc \<times> outcome \<Rightarrow> 'fs" where
  "files_left r = files (fst r)"

text \<open>
  The terminal states of the state machine in section 4.5 of the specification: the
  script ended through \<^verbatim>\<open>sys.exit\<close> or by returning from \<^verbatim>\<open>main\<close>. A traceback (the
  fatal, unhandled path of the specification) and a blocked subprocess call are not
  among them.
\<close>

fun terminal_state :: "outcome \<Rightarrow> bool" where
  "terminal_state Returned = True"
| "terminal_state (SysExit n) = True"
| "terminal_state (Uncaught e) = False"
| "terminal_state Blocked = False"

text \<open>The command line the script builds for the subprocess.\<close>

definition sharp_args :: "string list \<Rightarrow> string list" where
  "sharp_args argv =
     [''sharp'', ''predict'', ''-i'', str (Path (argv ! 1)), ''-o'', str (Path (argv ! 2))]"

subsection \<open>Example worlds\<close>

text \<open>
  A working directory \<^verbatim>\<open>/home\<close> with a photo and a directory in it, and three
  behaviours of the external tool: one that writes the given file names, in that
  order, into the directory named after \<^verbatim>\<open>-o\<close>, one that fails with an exit code
  and a text on its error stream, and one that never exits.
\<close>

definition home :: posix where
  "home =
     \<lparr>entries = [([''home''], Directory),
                 ([''home'', ''photo.png''], Regular),
                 ([''home'', ''album''], Directory)],
      cwd = [''home'']\<rparr>"

text \<open>The same directory with further entries, enumerated after the others.\<close>

definition home_with :: "(string list \<times> kind) list \<Rightarrow> posix" where
  "home_with es = home\<lparr>entries := entries home @ es\<rparr>"

definition sharp_writes :: "string list \<Rightarrow> string list \<Rightarrow> posix \<Rightarrow> posix run_result" where
  "sharp_writes names args fs =
     (case resolve fs (Path (args ! 5)) of
        Inl e \<Rightarrow> Completed \<lparr>returncode = 2, stdout = [], stderr = ''no output directory''\<rparr> fs
      | Inr q \<Rightarrow>
          Completed \<lparr>returncode = 0, stdout = [], stderr = []\<rparr>
            (fs\<lparr>entries := entries fs @ map (\<lambda>name. (q @ [name], Regular)) names\<rparr>))"

definition sharp_fails :: "int \<Rightarrow> string \<Rightarrow> string list \<Rightarrow> posix \<Rightarrow> posix run_result" where
  "sharp_fails code msg args fs = Completed \<lparr>returncode = code, stdout = [], stderr = msg\<rparr> fs"

definition sharp_hangs :: "string list \<Rightarrow> posix \<Rightarrow> posix run_result" where
  "sharp_hangs args fs = Never"

section \<open>The paths through the script\<close>

text \<open>
  One lemma per way through \<open>main\<close>: what the operating system answered, and the run
  that follows from it.
\<close>

lemmas run_defs = emitted_def exit_code_def effects_def files_left_def

lemmas step_defs = log_def print_json_def flush_def sys_exit_def call_exists_def call_mkdir_def
  call_run_def call_glob_def

lemmas posix_defs = posix_os_def posix_exists_def posix_glob_def resolve_def kind_of_def
  os_mkdir_def mkdir_exist_ok_def is_dir_def names_entry_def parent_def scandir_def name_max_def

lemmas path_defs = Path_def splitroot_def str_def

lemmas world_defs = home_def home_with_def sharp_writes_def sharp_fails_def sharp_hangs_def

lemma main_usage:
  "length argv < 3 \<Longrightarrow>
   main os argv fs =
     (\<lparr>files = fs, trace = [Print [(''error'', ''Usage: generate_splat.py <input_image> <output_dir>'')]]\<rparr>, SysExit 1)"
  by (simp add: main_def step_defs)

lemma main_stat_raises:
  "3 \<le> length argv \<Longrightarrow> path_exists os fs (Path (argv ! 1)) = Inl e \<Longrightarrow>
   main os argv fs = (\<lparr>files = fs, trace = [Stat (Path (argv ! 1))]\<rparr>, Uncaught e)"
  by (simp add: main_def step_defs Let_def)

lemma main_not_found:
  "3 \<le> length argv \<Longrightarrow> path_exists os fs (Path (argv ! 1)) = Inr False \<Longrightarrow>
   main os argv fs =
     (\<lparr>files = fs,
       trace = [Stat (Path (argv ! 1)),
                Print [(''error'', ''Input image not found: '' @ str (Path (argv ! 1)))]]\<rparr>,
      SysExit 1)"
  by (simp add: main_def step_defs Let_def)

lemma main_mkdir_raises:
  "3 \<le> length argv \<Longrightarrow> path_exists os fs (Path (argv ! 1)) = Inr True \<Longrightarrow>
   path_mkdir os fs (Path (argv ! 2)) = Inl e \<Longrightarrow>
   main os argv fs =
     (\<lparr>files = fs, trace = [Stat (Path (argv ! 1)), Mkdir (Path (argv ! 2))]\<rparr>, Uncaught e)"
  by (simp add: main_def step_defs Let_def)

lemma main_run_raises:
  "3 \<le> length argv \<Longrightarrow> path_exists os fs (Path (argv ! 1)) = Inr True \<Longrightarrow>
   path_mkdir os fs (Path (argv ! 2)) = Inr fs1 \<Longrightarrow>
   subprocess_run os fs1 (sharp_args argv) = Raised e \<Longrightarrow>
   main os argv fs =
     (\<lparr>files = fs1,
       trace = [Stat (Path (argv ! 1)), Mkdir (Path (argv ! 2)), Print starting_message, Flush,
                Spawn (sharp_args argv)]\<rparr>,
      Uncaught e)"
  by (simp add: main_def step_defs Let_def sharp_args_def starting_message_def)

lemma main_run_blocks:
  "3 \<le> length argv \<Longrightarrow> path_exists os fs (Path (argv ! 1)) = Inr True \<Longrightarrow>
   path_mkdir os fs (Path (argv ! 2)) = Inr fs1 \<Longrightarrow>
   subprocess_run os fs1 (sharp_args argv) = Never \<Longrightarrow>
   main os argv fs =
     (\<lparr>files = fs1,
       trace = [Stat (Path (argv ! 1)), Mkdir (Path (argv ! 2)), Print starting_message, Flush,
                Spawn (sharp_args argv)]\<rparr>,
      Blocked)"
  by (simp add: main_def step_defs Let_def sharp_args_def starting_message_def)

lemma main_tool_failed:
  "3 \<le> length argv \<Longrightarrow> path_exists os fs (Path (argv ! 1)) = Inr True \<Longrightarrow>
   path_mkdir os fs (Path (argv ! 2)) = Inr fs1 \<Longrightarrow>
   subprocess_run os fs1 (sharp_args argv) = Completed res fs2 \<Longrightarrow>
   returncode res \<noteq> 0 \<Longrightarrow>
   main os argv fs =
     (\<lparr>files = fs2,
       trace = [Stat (Path (argv ! 1)), Mkdir (Path (argv ! 2)), Print starting_message, Flush,
                Spawn (sharp_args argv), Print [(''error'', ''SHARP failed: '' @ stderr res)]]\<rparr>,
      SysExit 1)"
  by (simp add: main_def step_defs Let_def sharp_args_def starting_message_def)

lemma main_glob_raises:
  "3 \<le> length argv \<Longrightarrow> path_exists os fs (Path (argv ! 1)) = Inr True \<Longrightarrow>
   path_mkdir os fs (Path (argv ! 2)) = Inr fs1 \<Longrightarrow>
   subprocess_run os fs1 (sharp_args argv) = Completed res fs2 \<Longrightarrow>
   returncode res = 0 \<Longrightarrow>
   path_glob os fs2 (Path (argv ! 2)) ''*.ply'' = Inl e \<Longrightarrow>
   main os argv fs =
     (\<lparr>files = fs2,
       trace = [Stat (Path (argv ! 1)), Mkdir (Path (argv ! 2)), Print starting_message, Flush,
                Spawn (sharp_args argv), Glob (Path (argv ! 2)) ''*.ply'']\<rparr>,
      Uncaught e)"
  by (simp add: main_def step_defs Let_def sharp_args_def starting_message_def)

lemma main_no_ply:
  "3 \<le> length argv \<Longrightarrow> path_exists os fs (Path (argv ! 1)) = Inr True \<Longrightarrow>
   path_mkdir os fs (Path (argv ! 2)) = Inr fs1 \<Longrightarrow>
   subprocess_run os fs1 (sharp_args argv) = Completed res fs2 \<Longrightarrow>
   returncode res = 0 \<Longrightarrow>
   path_glob os fs2 (Path (argv ! 2)) ''*.ply'' = Inr [] \<Longrightarrow>
   main os argv fs =
     (\<lparr>files = fs2,
       trace = [Stat (Path (argv ! 1)), Mkdir (Path (argv ! 2)), Print starting_message, Flush,
                Spawn (sharp_args argv), Glob (Path (argv ! 2)) ''*.ply'',
                Print [(''error'', ''No .ply file generated'')]]\<rparr>,
      SysExit 1)"
  by (simp add: main_def step_defs Let_def sharp_args_def starting_message_def)

lemma main_complete:
  "3 \<le> length argv \<Longrightarrow> path_exists os fs (Path (argv ! 1)) = Inr True \<Longrightarrow>
   path_mkdir os fs (Path (argv ! 2)) = Inr fs1 \<Longrightarrow>
   subprocess_run os fs1 (sharp_args argv) = Completed res fs2 \<Longrightarrow>
   returncode res = 0 \<Longrightarrow>
   path_glob os fs2 (Path (argv ! 2)) ''*.ply'' = Inr (ply # rest) \<Longrightarrow>
   main os argv fs =
     (\<lparr>files = fs2,
       trace = [Stat (Path (argv ! 1)), Mkdir (Path (argv ! 2)), Print starting_message, Flush,
                Spawn (sharp_args argv), Glob (Path (argv ! 2)) ''*.ply'',
                Print [(''status'', ''complete''), (''output_path'', str ply),
                       (''message'', ''3D splat generated successfully!'')]]\<rparr>,
      Returned)"
  by (simp add: main_def step_defs Let_def sharp_args_def starting_message_def)

text \<open>The ten lemmas cover every run: the answers of the operating system fall into one of these cases.\<close>

lemma main_cases:
  obtains (usage) "length argv < 3"
  | (stat_raises) e where "3 \<le> length argv" "path_exists os fs (Path (argv ! 1)) = Inl e"
  | (not_found) "3 \<le> length argv" "path_exists os fs (Path (argv ! 1)) = Inr False"
  | (mkdir_raises) e where "3 \<le> length argv" "path_exists os fs (Path (argv ! 1)) = Inr True"
      "path_mkdir os fs (Path (argv ! 2)) = Inl e"
  | (run_raises) fs1 e where "3 \<le> length argv" "path_exists os fs (Path (argv ! 1)) = Inr True"
      "path_mkdir os fs (Path (argv ! 2)) = Inr fs1"
      "subprocess_run os fs1 (sharp_args argv) = Raised e"
  | (run_blocks) fs1 where "3 \<le> length argv" "path_exists os fs (Path (argv ! 1)) = Inr True"
      "path_mkdir os fs (Path (argv ! 2)) = Inr fs1"
      "subprocess_run os fs1 (sharp_args argv) = Never"
  | (tool_failed) fs1 res fs2 where "3 \<le> length argv"
      "path_exists os fs (Path (argv ! 1)) = Inr True"
      "path_mkdir os fs (Path (argv ! 2)) = Inr fs1"
      "subprocess_run os fs1 (sharp_args argv) = Completed res fs2"
      "returncode res \<noteq> 0"
  | (glob_raises) fs1 res fs2 e where "3 \<le> length argv"
      "path_exists os fs (Path (argv ! 1)) = Inr True"
      "path_mkdir os fs (Path (argv ! 2)) = Inr fs1"
      "subprocess_run os fs1 (sharp_args argv) = Completed res fs2"
      "returncode res = 0"
      "path_glob os fs2 (Path (argv ! 2)) ''*.ply'' = Inl e"
  | (no_ply) fs1 res fs2 where "3 \<le> length argv"
      "path_exists os fs (Path (argv ! 1)) = Inr True"
      "path_mkdir os fs (Path (argv ! 2)) = Inr fs1"
      "subprocess_run os fs1 (sharp_args argv) = Completed res fs2"
      "returncode res = 0"
      "path_glob os fs2 (Path (argv ! 2)) ''*.ply'' = Inr []"
  | (complete) fs1 res fs2 ply rest where "3 \<le> length argv"
      "path_exists os fs (Path (argv ! 1)) = Inr True"
      "path_mkdir os fs (Path (argv ! 2)) = Inr fs1"
      "subprocess_run os fs1 (sharp_args argv) = Completed res fs2"
      "returncode res = 0"
      "path_glob os fs2 (Path (argv ! 2)) ''*.ply'' = Inr (ply # rest)"
proof (cases "length argv < 3")
  case True
  then show ?thesis by (rule usage)
next
  case False
  then have n: "3 \<le> length argv" by simp
  show ?thesis
  proof (cases "path_exists os fs (Path (argv ! 1))")
    case (Inl e)
    with n show ?thesis by (rule stat_raises)
  next
    case (Inr found)
    show ?thesis
    proof (cases found)
      case False
      with n Inr show ?thesis by (auto intro: not_found)
    next
      case True
      with Inr have ex: "path_exists os fs (Path (argv ! 1)) = Inr True" by simp
      show ?thesis
      proof (cases "path_mkdir os fs (Path (argv ! 2))")
        case (Inl e)
        with n ex show ?thesis by (rule mkdir_raises)
      next
        case mk: (Inr fs1)
        show ?thesis
        proof (cases "subprocess_run os fs1 (sharp_args argv)")
          case (Raised e)
          with n ex mk show ?thesis by (rule run_raises)
        next
          case Never
          with n ex mk show ?thesis by (rule run_blocks)
        next
          case run: (Completed res fs2)
          show ?thesis
          proof (cases "returncode res = 0")
            case False
            with n ex mk run show ?thesis by (rule tool_failed)
          next
            case rc: True
            show ?thesis
            proof (cases "path_glob os fs2 (Path (argv ! 2)) ''*.ply''")
              case (Inl e)
              with n ex mk run rc show ?thesis by (rule glob_raises)
            next
              case gl: (Inr ply_files)
              show ?thesis
              proof (cases ply_files)
                case Nil
                with n ex mk run rc gl show ?thesis by (auto intro: no_ply)
              next
                case (Cons ply rest)
                with n ex mk run rc gl show ?thesis by (auto intro: complete)
              qed
            qed
          qed
        qed
      qed
    qed
  qed
qed

text \<open>The shapes of the messages the script writes.\<close>

lemma message_shapes [simp]:
  "is_error [(''error'', x)]"
  "\<not> is_complete [(''error'', x)]"
  "\<not> is_starting [(''error'', x)]"
  "is_starting starting_message"
  "\<not> is_error starting_message"
  "\<not> is_complete starting_message"
  "is_complete [(''status'', ''complete''), (''output_path'', y), (''message'', z)]"
  "\<not> is_starting [(''status'', ''complete''), (''output_path'', y), (''message'', z)]"
  by (simp_all add: is_error_def is_complete_def is_starting_def starting_message_def)

text \<open>Once three arguments are there, the usage error is never written, and the first effect is the existence check of the first positional argument.\<close>

lemma no_usage_error:
  assumes "3 \<le> length argv"
  shows "[(''error'', ''Usage: generate_splat.py <input_image> <output_dir>'')]
           \<notin> set (emitted (main os argv fs))"
proof (cases rule: main_cases [where argv = argv and os = os and fs = fs])
  case usage
  with assms show ?thesis by simp
next
  case (stat_raises e)
  then show ?thesis by (simp add: main_stat_raises run_defs)
next
  case not_found
  then show ?thesis by (simp add: main_not_found run_defs)
next
  case (mkdir_raises e)
  then show ?thesis by (simp add: main_mkdir_raises run_defs)
next
  case (run_raises fs1 e)
  then show ?thesis by (simp add: main_run_raises run_defs starting_message_def)
next
  case (run_blocks fs1)
  then show ?thesis by (simp add: main_run_blocks run_defs starting_message_def)
next
  case (tool_failed fs1 res fs2)
  then show ?thesis by (simp add: main_tool_failed run_defs starting_message_def)
next
  case (glob_raises fs1 res fs2 e)
  then show ?thesis by (simp add: main_glob_raises run_defs starting_message_def)
next
  case (no_ply fs1 res fs2)
  then show ?thesis by (simp add: main_no_ply run_defs starting_message_def)
next
  case (complete fs1 res fs2 ply rest)
  then show ?thesis by (simp add: main_complete run_defs starting_message_def)
qed

lemma first_effect_is_stat:
  assumes "3 \<le> length argv"
  shows "take 1 (effects (main os argv fs)) = [Stat (Path (argv ! 1))]"
proof (cases rule: main_cases [where argv = argv and os = os and fs = fs])
  case usage
  with assms show ?thesis by simp
next
  case (stat_raises e)
  then show ?thesis by (simp add: main_stat_raises run_defs)
next
  case not_found
  then show ?thesis by (simp add: main_not_found run_defs)
next
  case (mkdir_raises e)
  then show ?thesis by (simp add: main_mkdir_raises run_defs)
next
  case (run_raises fs1 e)
  then show ?thesis by (simp add: main_run_raises run_defs)
next
  case (run_blocks fs1)
  then show ?thesis by (simp add: main_run_blocks run_defs)
next
  case (tool_failed fs1 res fs2)
  then show ?thesis by (simp add: main_tool_failed run_defs)
next
  case (glob_raises fs1 res fs2 e)
  then show ?thesis by (simp add: main_glob_raises run_defs)
next
  case (no_ply fs1 res fs2)
  then show ?thesis by (simp add: main_no_ply run_defs)
next
  case (complete fs1 res fs2 ply rest)
  then show ?thesis by (simp add: main_complete run_defs)
qed

text \<open>The script reads nothing of \<^verbatim>\<open>sys.argv\<close> beyond its length and the entries 1 and 2.\<close>

lemma main_take_3:
  assumes "3 \<le> length argv"
  shows "main os argv fs = main os (take 3 argv) fs"
proof -
  from assms have "length (take 3 argv) = 3" "take 3 argv ! 1 = argv ! 1" "take 3 argv ! 2 = argv ! 2"
    by simp_all
  with assms show ?thesis
    by (simp add: main_def)
qed

section \<open>The filesystem model\<close>







text \<open>The preparation of a directory only adds directories.\<close>

lemma extends_refl: "extends fs fs"
  unfolding extends_def by (rule exI [of _ "[]"]) simp

lemma extends_trans: "extends a b \<Longrightarrow> extends b c \<Longrightarrow> extends a c"
  unfolding extends_def
proof -
  assume "\<exists>ds. b = a\<lparr>entries := entries a @ map (\<lambda>q. (q, Directory)) ds\<rparr>"
    and "\<exists>ds. c = b\<lparr>entries := entries b @ map (\<lambda>q. (q, Directory)) ds\<rparr>"
  then obtain ds es where "b = a\<lparr>entries := entries a @ map (\<lambda>q. (q, Directory)) ds\<rparr>"
    and "c = b\<lparr>entries := entries b @ map (\<lambda>q. (q, Directory)) es\<rparr>"
    by blast
  then have "c = a\<lparr>entries := entries a @ map (\<lambda>q. (q, Directory)) (ds @ es)\<rparr>"
    by simp
  then show "\<exists>ds. c = a\<lparr>entries := entries a @ map (\<lambda>q. (q, Directory)) ds\<rparr>"
    by blast
qed

lemma os_mkdir_extends: "os_mkdir fs p = Inr fs' \<Longrightarrow> extends fs fs'"
  unfolding extends_def
  by (auto simp: os_mkdir_def split: sum.splits if_splits intro: exI [of _ "[q]" for q])

lemma mkdir_exist_ok_extends: "mkdir_exist_ok fs p = Inr fs' \<Longrightarrow> extends fs fs'"
  by (auto simp: mkdir_exist_ok_def os_mkdir_extends extends_refl split: sum.splits if_splits)

lemma Path_mkdir_extends: "Path_mkdir fs p = Inr fs' \<Longrightarrow> extends fs fs'"
proof (induction fs p arbitrary: fs' rule: Path_mkdir.induct)
  case (1 fs p)
  from "1.prems" show ?case
    by (subst (asm) Path_mkdir.simps)
       (auto simp: os_mkdir_extends extends_refl split: sum.splits if_splits
             dest: mkdir_exist_ok_extends intro: extends_trans "1.IH")
qed

text \<open>The pattern \<^verbatim>\<open>*.ply\<close> matches the names that end in \<^verbatim>\<open>.ply\<close>.\<close>

lemma fnmatch_literal:
  "CHR ''*'' \<notin> set pat \<Longrightarrow> CHR ''?'' \<notin> set pat \<Longrightarrow> fnmatchcase name pat \<longleftrightarrow> name = pat"
  by (induction name pat rule: fnmatchcase.induct) auto

lemma fnmatch_star_literal:
  assumes "CHR ''*'' \<notin> set pat" "CHR ''?'' \<notin> set pat"
  shows "fnmatchcase name (CHR ''*'' # pat) \<longleftrightarrow> (\<exists>stem. name = stem @ pat)"
proof (induction name)
  case Nil
  from assms show ?case
    by (cases pat) (auto simp: fnmatch_literal)
next
  case (Cons c cs)
  have "fnmatchcase (c # cs) (CHR ''*'' # pat) \<longleftrightarrow> c # cs = pat \<or> (\<exists>stem. cs = stem @ pat)"
    using assms Cons.IH by (simp add: fnmatch_literal)
  also have "\<dots> \<longleftrightarrow> (\<exists>stem. c # cs = stem @ pat)"
    by (auto simp: Cons_eq_append_conv)
  finally show ?case .
qed

lemma fnmatch_ply: "fnmatchcase name ''*.ply'' \<longleftrightarrow> (\<exists>stem. name = stem @ ''.ply'')"
  using fnmatch_star_literal [of "''.ply''" name] by simp

text \<open>\<^verbatim>\<open>exists()\<close> does not look at the kind of the entry it finds.\<close>

lemma posix_exists_any_kind:
  "resolve fs p = Inr q \<Longrightarrow> kind_of fs q = Some k \<Longrightarrow> posix_exists fs p = Inr True"
  by (simp add: posix_exists_def)

text \<open>The example world: the photo and the album exist, and \<^verbatim>\<open>out\<close> can be created.\<close>

lemma home_photo: "posix_exists home (Path ''photo.png'') = Inr True"
  by (simp add: posix_defs path_defs world_defs)

lemma home_album: "posix_exists home (Path ''album'') = Inr True"
  by (simp add: posix_defs path_defs world_defs)

lemma home_mkdir_out:
  "Path_mkdir home (Path ''out'') = Inr (home_with [([''home'', ''out''], Directory)])"
  by (simp add: Path_mkdir.simps posix_defs path_defs world_defs)

section \<open>Argument validation\<close>

text \<open>
  Claim C5. An invocation with fewer than two positional arguments after the program
  name writes one JSON object to standard output, the ErrorMessage with the usage
  string \<^verbatim>\<open>Usage: generate_splat.py <input_image> <output_dir>\<close>, and exits with
  status 1. This holds whatever the operating system would have answered, since no
  call is made (\<open>main_usage\<close> gives the whole trace).
\<close>

theorem usage_error_on_fewer_than_two_arguments:
  assumes "length (tl argv) < 2"
  shows "emitted (main os argv fs) =
           [[(''error'', ''Usage: generate_splat.py <input_image> <output_dir>'')]]
         \<and> exit_code (main os argv fs) = Some 1"
proof -
  from assms have "length argv < 3" by simp
  then show ?thesis
    by (simp add: main_usage run_defs)
qed

theorem usage_error_on_fewer_than_two_arguments_witness:
  "length (tl [''generate_splat.py'', ''photo.png'']) < 2
   \<and> (let r = main (posix_os (sharp_writes [''model.ply''])) [''generate_splat.py'', ''photo.png''] home
      in emitted r = [[(''error'', ''Usage: generate_splat.py <input_image> <output_dir>'')]]
         \<and> exit_code r = Some 1)"
proof -
  have h: "length (tl [''generate_splat.py'', ''photo.png'']) < 2" by simp
  show ?thesis
    using h usage_error_on_fewer_than_two_arguments [OF h] by (simp add: Let_def)
qed

text \<open>
  Claim C6, as stated, says that any number of positional arguments other than two is
  rejected with the usage error. The guard of the script is \<^verbatim>\<open>len(sys.argv) < 3\<close>, so
  only fewer than two are rejected: with the three positional arguments
  \<^verbatim>\<open>photo.png out --fast\<close> the script runs the tool and reports success with exit
  status 0.
\<close>

theorem three_positional_arguments_counterexample:
  "length (tl [''generate_splat.py'', ''photo.png'', ''out'', ''--fast'']) \<noteq> 2
   \<and> emitted (main (posix_os (sharp_writes [''model.ply'']))
                [''generate_splat.py'', ''photo.png'', ''out'', ''--fast''] home) =
       [[(''status'', ''starting''), (''message'', ''Loading SHARP model...'')],
        [(''status'', ''complete''), (''output_path'', ''out/model.ply''),
         (''message'', ''3D splat generated successfully!'')]]
   \<and> exit_code (main (posix_os (sharp_writes [''model.ply'']))
                  [''generate_splat.py'', ''photo.png'', ''out'', ''--fast''] home) = Some 0"
  by code_simp

text \<open>
  Claim C6, amended. The argument validator requires at least two positional values
  after the program name. With fewer than two, the only effect of the run is the usage
  ErrorMessage, the exit status is 1 and the filesystem is untouched; with two or more,
  no usage error is ever written and the run starts with the existence check of the
  first positional argument.
\<close>

theorem usage_error_exactly_below_two_arguments:
  "(length (tl argv) < 2 \<longrightarrow>
      effects (main os argv fs) =
        [Print [(''error'', ''Usage: generate_splat.py <input_image> <output_dir>'')]]
      \<and> exit_code (main os argv fs) = Some 1
      \<and> files_left (main os argv fs) = fs)
   \<and> (2 \<le> length (tl argv) \<longrightarrow>
      [(''error'', ''Usage: generate_splat.py <input_image> <output_dir>'')]
        \<notin> set (emitted (main os argv fs))
      \<and> take 1 (effects (main os argv fs)) = [Stat (Path (argv ! 1))])"
proof (intro conjI impI)
  assume "length (tl argv) < 2"
  then have few: "length argv < 3" by simp
  show "effects (main os argv fs) =
          [Print [(''error'', ''Usage: generate_splat.py <input_image> <output_dir>'')]]"
    by (simp add: main_usage [OF few] run_defs)
  show "exit_code (main os argv fs) = Some 1"
    by (simp add: main_usage [OF few] run_defs)
  show "files_left (main os argv fs) = fs"
    by (simp add: main_usage [OF few] run_defs)
next
  assume "2 \<le> length (tl argv)"
  then have enough: "3 \<le> length argv" by simp
  show "[(''error'', ''Usage: generate_splat.py <input_image> <output_dir>'')]
          \<notin> set (emitted (main os argv fs))"
    using enough by (rule no_usage_error)
  show "take 1 (effects (main os argv fs)) = [Stat (Path (argv ! 1))]"
    using enough by (rule first_effect_is_stat)
qed

theorem usage_error_exactly_below_two_arguments_witness:
  "(let os = posix_os (sharp_writes [''model.ply'']);
        few = [''generate_splat.py''];
        many = [''generate_splat.py'', ''scan.png'', ''out'', ''--fast'', ''--quiet'']
    in length (tl few) < 2
       \<and> effects (main os few home) =
           [Print [(''error'', ''Usage: generate_splat.py <input_image> <output_dir>'')]]
       \<and> exit_code (main os few home) = Some 1
       \<and> files_left (main os few home) = home
       \<and> 2 \<le> length (tl many)
       \<and> [(''error'', ''Usage: generate_splat.py <input_image> <output_dir>'')]
            \<notin> set (emitted (main os many home))
       \<and> take 1 (effects (main os many home)) = [Stat \<lparr>root = [], tail = [''scan.png'']\<rparr>])"
proof -
  let ?os = "posix_os (sharp_writes [''model.ply''])"
  let ?few = "[''generate_splat.py'']"
  let ?many = "[''generate_splat.py'', ''scan.png'', ''out'', ''--fast'', ''--quiet'']"
  have h1: "length (tl ?few) < 2" by simp
  have h2: "2 \<le> length (tl ?many)" by simp
  have p: "Path ''scan.png'' = \<lparr>root = [], tail = [''scan.png'']\<rparr>"
    by (simp add: path_defs)
  show ?thesis
    using h1 h2
      usage_error_exactly_below_two_arguments [of ?few ?os home]
      usage_error_exactly_below_two_arguments [of ?many ?os home]
    by (simp add: Let_def p)
qed

text \<open>
  Claim C9. With more than two positional arguments the script reports no usage error
  and runs exactly as it does on the program name and the first two of them alone: the
  first is the input image path, the second the output directory path, and whatever
  follows is never read.
\<close>

theorem extra_arguments_ignored:
  assumes "2 < length (tl argv)"
  shows "main os argv fs = main os [argv ! 0, argv ! 1, argv ! 2] fs
         \<and> [(''error'', ''Usage: generate_splat.py <input_image> <output_dir>'')]
              \<notin> set (emitted (main os argv fs))"
proof -
  from assms have n: "3 \<le> length argv" by simp
  then obtain a b c rest where "argv = a # b # c # rest"
    by (auto simp: numeral_3_eq_3 Suc_le_length_iff)
  then have "take 3 argv = [argv ! 0, argv ! 1, argv ! 2]"
    by simp
  with main_take_3 [OF n, of os fs]
  have "main os argv fs = main os [argv ! 0, argv ! 1, argv ! 2] fs"
    by simp
  moreover from n have "[(''error'', ''Usage: generate_splat.py <input_image> <output_dir>'')]
      \<notin> set (emitted (main os argv fs))"
    by (rule no_usage_error)
  ultimately show ?thesis
    by blast
qed

theorem extra_arguments_ignored_witness:
  "(let os = posix_os (sharp_writes [''model.ply'']);
        argv = [''generate_splat.py'', ''photo.png'', ''out'', ''--fast'', ''--quiet'']
    in 2 < length (tl argv)
       \<and> main os argv home = main os [''generate_splat.py'', ''photo.png'', ''out''] home
       \<and> [(''error'', ''Usage: generate_splat.py <input_image> <output_dir>'')]
            \<notin> set (emitted (main os argv home))
       \<and> Spawn [''sharp'', ''predict'', ''-i'', ''photo.png'', ''-o'', ''out'']
            \<in> set (effects (main os argv home)))"
proof -
  let ?os = "posix_os (sharp_writes [''model.ply''])"
  let ?argv = "[''generate_splat.py'', ''photo.png'', ''out'', ''--fast'', ''--quiet'']"
  have h: "2 < length (tl ?argv)" by simp
  have sp: "Spawn [''sharp'', ''predict'', ''-i'', ''photo.png'', ''-o'', ''out'']
              \<in> set (effects (main ?os [''generate_splat.py'', ''photo.png'', ''out''] home))"
    by code_simp
  note ignored = extra_arguments_ignored [OF h, of ?os home]
  from ignored have same: "main ?os ?argv home = main ?os [''generate_splat.py'', ''photo.png'', ''out''] home"
    by simp
  from ignored have quiet: "[(''error'', ''Usage: generate_splat.py <input_image> <output_dir>'')]
      \<notin> set (emitted (main ?os ?argv home))"
    by blast
  from sp same have "Spawn [''sharp'', ''predict'', ''-i'', ''photo.png'', ''-o'', ''out'']
      \<in> set (effects (main ?os ?argv home))"
    by simp
  with h same quiet show ?thesis
    unfolding Let_def by blast
qed

text \<open>
  Claim C4, as stated, speaks of every invocation whose input image path names no
  existing filesystem entry. The script asks \<^verbatim>\<open>Path.exists()\<close>, and that call answers
  \<^verbatim>\<open>False\<close> only for the errors pathlib ignores; for any other error of \<^verbatim>\<open>stat\<close> it
  raises, and the script does not catch the exception. A name of 256 characters names
  no entry of the example world, and the run writes nothing to standard output and
  ends in a traceback.
\<close>

theorem name_too_long_counterexample:
  "\<not> names_entry home (Path (replicate 256 CHR ''a''))
   \<and> emitted (main (posix_os (sharp_writes [''model.ply'']))
                [''generate_splat.py'', replicate 256 CHR ''a'', ''out''] home) = []
   \<and> snd (main (posix_os (sharp_writes [''model.ply'']))
            [''generate_splat.py'', replicate 256 CHR ''a'', ''out''] home) =
       Uncaught (OSError ''ENAMETOOLONG'')"
  by code_simp

text \<open>
  Claim C4, amended. When two positional arguments are given and the existence check
  of the first answers \<^verbatim>\<open>False\<close>, the script writes exactly the ErrorMessage
  \<^verbatim>\<open>Input image not found: <path>\<close>, where the path is the argument as pathlib prints
  it, and exits with status 1. Its only effects are the existence check and that line:
  no directory is created, no starting message is written, no subprocess is launched,
  and the filesystem is left as it was. A check that raises instead of answering is
  the path \<open>main_stat_raises\<close>.
\<close>

theorem missing_input_reported:
  assumes "2 \<le> length (tl argv)"
    and "path_exists os fs (Path (argv ! 1)) = Inr False"
  shows "emitted (main os argv fs) =
           [[(''error'', ''Input image not found: '' @ str (Path (argv ! 1)))]]
         \<and> exit_code (main os argv fs) = Some 1
         \<and> effects (main os argv fs) =
             [Stat (Path (argv ! 1)),
              Print [(''error'', ''Input image not found: '' @ str (Path (argv ! 1)))]]
         \<and> files_left (main os argv fs) = fs"
proof -
  from assms(1) have "3 \<le> length argv" by simp
  from main_not_found [OF this assms(2)] show ?thesis
    by (simp add: run_defs)
qed

theorem missing_input_reported_witness:
  "2 \<le> length (tl [''generate_splat.py'', ''scan.png'', ''out''])
   \<and> path_exists (posix_os (sharp_writes [''model.ply''])) home (Path ''scan.png'') = Inr False
   \<and> (let r = main (posix_os (sharp_writes [''model.ply''])) [''generate_splat.py'', ''scan.png'', ''out''] home
      in emitted r = [[(''error'', ''Input image not found: scan.png'')]]
         \<and> exit_code r = Some 1
         \<and> effects r = [Stat \<lparr>root = [], tail = [''scan.png'']\<rparr>,
                        Print [(''error'', ''Input image not found: scan.png'')]]
         \<and> files_left r = home)"
proof -
  let ?os = "posix_os (sharp_writes [''model.ply''])"
  let ?argv = "[''generate_splat.py'', ''scan.png'', ''out'']"
  have h1: "2 \<le> length (tl ?argv)" by simp
  have h2: "path_exists ?os home (Path (?argv ! 1)) = Inr False"
    by (simp add: posix_defs path_defs home_def)
  have p: "Path ''scan.png'' = \<lparr>root = [], tail = [''scan.png'']\<rparr>"
    by (simp add: path_defs)
  show ?thesis
    using h1 h2 missing_input_reported [OF h1 h2] by (simp add: p str_def Let_def)
qed

text \<open>
  Claim C10, as stated, says that the external tool is invoked whenever the first
  argument names an existing entry. Between the existence check and the launch the
  script prepares the output directory, and an exception of that step is not caught:
  with the directory \<^verbatim>\<open>album\<close> as input and the existing file \<^verbatim>\<open>photo.png\<close> as
  output directory, the existence check passes, \<^verbatim>\<open>mkdir\<close> raises
  \<^verbatim>\<open>FileExistsError\<close>, and the run ends without a subprocess.
\<close>

theorem existing_input_without_launch_counterexample:
  "kind_of home [''home'', ''album''] = Some Directory
   \<and> names_entry home (Path ''album'')
   \<and> posix_exists home (Path ''album'') = Inr True
   \<and> effects (main (posix_os (sharp_writes [''model.ply'']))
                [''generate_splat.py'', ''album'', ''photo.png''] home) =
       [Stat \<lparr>root = [], tail = [''album'']\<rparr>, Mkdir \<lparr>root = [], tail = [''photo.png'']\<rparr>]
   \<and> snd (main (posix_os (sharp_writes [''model.ply'']))
            [''generate_splat.py'', ''album'', ''photo.png''] home) = Uncaught FileExistsError"
  by code_simp

text \<open>
  Claim C10, amended. The validation of the input path is the call of \<^verbatim>\<open>exists()\<close>
  and nothing else: whenever two positional arguments are given and it answers
  \<^verbatim>\<open>True\<close>, for an entry of whatever kind (the witness takes the directory
  \<^verbatim>\<open>album\<close>; \<open>posix_exists_any_kind\<close> is the general fact of the filesystem model),
  the not-found error is not written and the next effect is the preparation of the
  output directory. When that preparation succeeds, the external tool is invoked with
  this path after \<^verbatim>\<open>-i\<close>, on the filesystem the preparation left, and the run goes
  on from what the subprocess call does: it blocks with it, ends in its exception, or
  continues on the filesystem the tool left. When the preparation raises, the run ends
  in that exception right after it, without a subprocess.
\<close>

theorem existence_is_the_only_input_check:
  assumes "2 \<le> length (tl argv)"
    and "path_exists os fs (Path (argv ! 1)) = Inr True"
  shows "take 2 (effects (main os argv fs)) = [Stat (Path (argv ! 1)), Mkdir (Path (argv ! 2))]
         \<and> [(''error'', ''Input image not found: '' @ str (Path (argv ! 1)))]
              \<notin> set (emitted (main os argv fs))
         \<and> (case path_mkdir os fs (Path (argv ! 2)) of
               Inl e \<Rightarrow>
                 effects (main os argv fs) = [Stat (Path (argv ! 1)), Mkdir (Path (argv ! 2))]
                 \<and> snd (main os argv fs) = Uncaught e
             | Inr fs1 \<Rightarrow>
                 Spawn [''sharp'', ''predict'', ''-i'', str (Path (argv ! 1)),
                        ''-o'', str (Path (argv ! 2))]
                   \<in> set (effects (main os argv fs))
                 \<and> (case subprocess_run os fs1
                            [''sharp'', ''predict'', ''-i'', str (Path (argv ! 1)),
                             ''-o'', str (Path (argv ! 2))] of
                       Completed res fs2 \<Rightarrow> files_left (main os argv fs) = fs2
                     | Raised e \<Rightarrow> snd (main os argv fs) = Uncaught e
                     | Never \<Rightarrow> snd (main os argv fs) = Blocked))"
proof -
  from assms(1) have n: "3 \<le> length argv" by simp
  show ?thesis
  proof (cases rule: main_cases [where argv = argv and os = os and fs = fs])
    case usage
    with n show ?thesis by simp
  next
    case (stat_raises e)
    with assms(2) show ?thesis by simp
  next
    case not_found
    with assms(2) show ?thesis by simp
  next
    case (mkdir_raises e)
    from main_mkdir_raises [OF mkdir_raises] mkdir_raises(3) show ?thesis
      by (simp add: run_defs)
  next
    case (run_raises fs' e)
    from main_run_raises [OF run_raises] run_raises(3,4) show ?thesis
      by (simp add: run_defs starting_message_def sharp_args_def)
  next
    case (run_blocks fs')
    from main_run_blocks [OF run_blocks] run_blocks(3,4) show ?thesis
      by (simp add: run_defs starting_message_def sharp_args_def)
  next
    case (tool_failed fs' res fs'')
    from main_tool_failed [OF tool_failed] tool_failed(3,4) show ?thesis
      by (simp add: run_defs starting_message_def sharp_args_def)
  next
    case (glob_raises fs' res fs'' e)
    from main_glob_raises [OF glob_raises] glob_raises(3,4) show ?thesis
      by (simp add: run_defs starting_message_def sharp_args_def)
  next
    case (no_ply fs' res fs'')
    from main_no_ply [OF no_ply] no_ply(3,4) show ?thesis
      by (simp add: run_defs starting_message_def sharp_args_def)
  next
    case (complete fs' res fs'' ply rest)
    from main_complete [OF complete] complete(3,4) show ?thesis
      by (simp add: run_defs starting_message_def sharp_args_def)
  qed
qed

theorem existence_is_the_only_input_check_witness:
  "(let os = posix_os (sharp_writes [''model.ply'']);
        argv = [''generate_splat.py'', ''album'', ''out''];
        r = main os argv home
    in 2 \<le> length (tl argv)
       \<and> kind_of home [''home'', ''album''] = Some Directory
       \<and> path_exists os home (Path (argv ! 1)) = Inr True
       \<and> path_mkdir os home (Path (argv ! 2)) = Inr (home_with [([''home'', ''out''], Directory)])
       \<and> take 2 (effects r) =
           [Stat \<lparr>root = [], tail = [''album'']\<rparr>, Mkdir \<lparr>root = [], tail = [''out'']\<rparr>]
       \<and> [(''error'', ''Input image not found: album'')] \<notin> set (emitted r)
       \<and> Spawn [''sharp'', ''predict'', ''-i'', ''album'', ''-o'', ''out''] \<in> set (effects r)
       \<and> files_left r =
           home_with [([''home'', ''out''], Directory), ([''home'', ''out'', ''model.ply''], Regular)])"
proof -
  let ?os = "posix_os (sharp_writes [''model.ply''])"
  let ?argv = "[''generate_splat.py'', ''album'', ''out'']"
  let ?fs1 = "home_with [([''home'', ''out''], Directory)]"
  let ?fs2 = "home_with [([''home'', ''out''], Directory), ([''home'', ''out'', ''model.ply''], Regular)]"
  have h1: "2 \<le> length (tl ?argv)" by simp
  have k: "kind_of home [''home'', ''album''] = Some Directory"
    by (simp add: kind_of_def home_def)
  have "resolve home (Path ''album'') = Inr [''home'', ''album'']"
    by (simp add: posix_defs path_defs home_def)
  from posix_exists_any_kind [OF this k]
  have h2: "path_exists ?os home (Path (?argv ! 1)) = Inr True"
    by (simp add: posix_os_def)
  have h3: "path_mkdir ?os home (Path (?argv ! 2)) = Inr ?fs1"
    by (simp add: posix_os_def home_mkdir_out)
  have p: "Path ''album'' = \<lparr>root = [], tail = [''album'']\<rparr>" "Path ''out'' = \<lparr>root = [], tail = [''out'']\<rparr>"
    by (simp_all add: path_defs)
  have h4: "subprocess_run ?os ?fs1 [''sharp'', ''predict'', ''-i'', ''album'', ''-o'', ''out''] =
              Completed \<lparr>returncode = 0, stdout = [], stderr = []\<rparr> ?fs2"
    by (simp add: posix_defs path_defs world_defs)
  show ?thesis
    using h1 k h2 h3 h4 existence_is_the_only_input_check [OF h1 h2]
    by (simp add: Let_def p str_def)
qed

section \<open>The external tool and its result\<close>

text \<open>
  Claim C2. When the subprocess exits with a non-zero code, the last line on standard
  output is the ErrorMessage whose single key \<^verbatim>\<open>error\<close> holds \<^verbatim>\<open>SHARP failed: \<close> followed
  by the captured text of the error stream, and the exit status is 1. The output
  directory is not scanned and no CompleteMessage is written.
\<close>

theorem tool_failure_reported:
  assumes "2 \<le> length (tl argv)"
    and "path_exists os fs (Path (argv ! 1)) = Inr True"
    and "path_mkdir os fs (Path (argv ! 2)) = Inr fs1"
    and "subprocess_run os fs1 (sharp_args argv) = Completed res fs2"
    and "returncode res \<noteq> 0"
  shows "last (emitted (main os argv fs)) = [(''error'', ''SHARP failed: '' @ stderr res)]
         \<and> exit_code (main os argv fs) = Some 1
         \<and> \<not> (\<exists>e \<in> set (effects (main os argv fs)). is_glob e)
         \<and> \<not> (\<exists>d \<in> set (emitted (main os argv fs)). is_complete d)"
proof -
  from assms(1) have "3 \<le> length argv" by simp
  from main_tool_failed [OF this assms(2-5)] show ?thesis
    by (simp add: run_defs)
qed

theorem tool_failure_reported_witness:
  "(let os = posix_os (sharp_fails 3 ''boom'');
        argv = [''generate_splat.py'', ''photo.png'', ''out''];
        r = main os argv home
    in 2 \<le> length (tl argv)
       \<and> path_exists os home (Path (argv ! 1)) = Inr True
       \<and> subprocess_run os (home_with [([''home'', ''out''], Directory)]) (sharp_args argv) =
           Completed \<lparr>returncode = 3, stdout = [], stderr = ''boom''\<rparr>
             (home_with [([''home'', ''out''], Directory)])
       \<and> last (emitted r) = [(''error'', ''SHARP failed: boom'')]
       \<and> exit_code r = Some 1
       \<and> \<not> (\<exists>e \<in> set (effects r). is_glob e)
       \<and> \<not> (\<exists>d \<in> set (emitted r). is_complete d))"
proof -
  let ?os = "posix_os (sharp_fails 3 ''boom'')"
  let ?argv = "[''generate_splat.py'', ''photo.png'', ''out'']"
  let ?fs1 = "home_with [([''home'', ''out''], Directory)]"
  let ?res = "\<lparr>returncode = 3, stdout = [], stderr = ''boom''\<rparr>"
  have h1: "2 \<le> length (tl ?argv)" by simp
  have h2: "path_exists ?os home (Path (?argv ! 1)) = Inr True"
    by (simp add: posix_os_def home_photo)
  have h3: "path_mkdir ?os home (Path (?argv ! 2)) = Inr ?fs1"
    by (simp add: posix_os_def home_mkdir_out)
  have h4: "subprocess_run ?os ?fs1 (sharp_args ?argv) = Completed ?res ?fs1"
    by (simp add: posix_os_def sharp_fails_def)
  have h5: "returncode ?res \<noteq> 0" by simp
  show ?thesis
    using h1 h2 h4 tool_failure_reported [OF h1 h2 h3 h4 h5]
    by (simp add: Let_def)
qed

text \<open>
  Claim C3. When the subprocess exits with status zero and the scan of the output
  directory for \<^verbatim>\<open>*.ply\<close> finds nothing, the last line on standard output is exactly
  the ErrorMessage \<^verbatim>\<open>No .ply file generated\<close> and the exit status is 1.
\<close>

theorem no_ply_reported:
  assumes "2 \<le> length (tl argv)"
    and "path_exists os fs (Path (argv ! 1)) = Inr True"
    and "path_mkdir os fs (Path (argv ! 2)) = Inr fs1"
    and "subprocess_run os fs1 (sharp_args argv) = Completed res fs2"
    and "returncode res = 0"
    and "path_glob os fs2 (Path (argv ! 2)) ''*.ply'' = Inr []"
  shows "last (emitted (main os argv fs)) = [(''error'', ''No .ply file generated'')]
         \<and> exit_code (main os argv fs) = Some 1"
proof -
  from assms(1) have "3 \<le> length argv" by simp
  from main_no_ply [OF this assms(2-6)] show ?thesis
    by (simp add: run_defs)
qed

theorem no_ply_reported_witness:
  "(let os = posix_os (sharp_writes [''log.txt'', ''model.obj'']);
        argv = [''generate_splat.py'', ''photo.png'', ''out''];
        r = main os argv home
    in 2 \<le> length (tl argv)
       \<and> path_exists os home (Path (argv ! 1)) = Inr True
       \<and> path_glob os (files_left r) (Path (argv ! 2)) ''*.ply'' = Inr []
       \<and> last (emitted r) = [(''error'', ''No .ply file generated'')]
       \<and> exit_code r = Some 1)"
proof -
  let ?os = "posix_os (sharp_writes [''log.txt'', ''model.obj''])"
  let ?argv = "[''generate_splat.py'', ''photo.png'', ''out'']"
  let ?fs1 = "home_with [([''home'', ''out''], Directory)]"
  let ?fs2 = "home_with [([''home'', ''out''], Directory),
                         ([''home'', ''out'', ''log.txt''], Regular),
                         ([''home'', ''out'', ''model.obj''], Regular)]"
  let ?res = "\<lparr>returncode = 0, stdout = [], stderr = []\<rparr>"
  have h1: "2 \<le> length (tl ?argv)" by simp
  have h2: "path_exists ?os home (Path (?argv ! 1)) = Inr True"
    by (simp add: posix_os_def home_photo)
  have h3: "path_mkdir ?os home (Path (?argv ! 2)) = Inr ?fs1"
    by (simp add: posix_os_def home_mkdir_out)
  have h4: "subprocess_run ?os ?fs1 (sharp_args ?argv) = Completed ?res ?fs2"
    by (simp add: sharp_args_def posix_defs path_defs world_defs)
  have h5: "returncode ?res = 0" by simp
  have h6: "path_glob ?os ?fs2 (Path (?argv ! 2)) ''*.ply'' = Inr []"
    by (simp add: posix_defs path_defs world_defs)
  have fl: "files_left (main ?os ?argv home) = ?fs2"
    using main_no_ply [OF _ h2 h3 h4 h5 h6] by (simp add: run_defs)
  show ?thesis
    using h1 h2 h6 fl no_ply_reported [OF h1 h2 h3 h4 h5 h6]
    by (simp add: Let_def)
qed

text \<open>
  Claim C1. When validation passes, the output directory is prepared, the subprocess
  exits with status zero and the scan of the output directory for \<^verbatim>\<open>*.ply\<close> finds at
  least one entry, the last line on standard output is the CompleteMessage with status
  \<^verbatim>\<open>complete\<close>, the path of the first entry of the scan as \<^verbatim>\<open>output_path\<close> and the
  message \<^verbatim>\<open>3D splat generated successfully!\<close>. The script ends by returning from
  \<^verbatim>\<open>main\<close>, not through \<^verbatim>\<open>sys.exit\<close>, and the exit status is 0. In the witness the
  tool writes \<^verbatim>\<open>log.txt\<close>, \<^verbatim>\<open>model.ply\<close> and \<^verbatim>\<open>extra.ply\<close> in this order, and the path
  reported is that of \<^verbatim>\<open>model.ply\<close>: the first match in enumeration order, not in
  alphabetical order.
\<close>

theorem complete_message_on_success:
  assumes "2 \<le> length (tl argv)"
    and "path_exists os fs (Path (argv ! 1)) = Inr True"
    and "path_mkdir os fs (Path (argv ! 2)) = Inr fs1"
    and "subprocess_run os fs1 (sharp_args argv) = Completed res fs2"
    and "returncode res = 0"
    and "path_glob os fs2 (Path (argv ! 2)) ''*.ply'' = Inr (ply # rest)"
  shows "last (emitted (main os argv fs)) =
           [(''status'', ''complete''),
            (''output_path'', str ply),
            (''message'', ''3D splat generated successfully!'')]
         \<and> snd (main os argv fs) = Returned
         \<and> exit_code (main os argv fs) = Some 0"
proof -
  from assms(1) have "3 \<le> length argv" by simp
  from main_complete [OF this assms(2-6)] show ?thesis
    by (simp add: run_defs)
qed

theorem complete_message_on_success_witness:
  "(let os = posix_os (sharp_writes [''log.txt'', ''model.ply'', ''extra.ply'']);
        argv = [''generate_splat.py'', ''photo.png'', ''out''];
        r = main os argv home
    in 2 \<le> length (tl argv)
       \<and> path_exists os home (Path (argv ! 1)) = Inr True
       \<and> path_glob os (files_left r) (Path (argv ! 2)) ''*.ply'' =
           Inr [\<lparr>root = [], tail = [''out'', ''model.ply'']\<rparr>, \<lparr>root = [], tail = [''out'', ''extra.ply'']\<rparr>]
       \<and> last (emitted r) =
           [(''status'', ''complete''),
            (''output_path'', ''out/model.ply''),
            (''message'', ''3D splat generated successfully!'')]
       \<and> snd r = Returned
       \<and> exit_code r = Some 0)"
proof -
  let ?names = "[''log.txt'', ''model.ply'', ''extra.ply'']"
  let ?os = "posix_os (sharp_writes ?names)"
  let ?argv = "[''generate_splat.py'', ''photo.png'', ''out'']"
  let ?fs1 = "home_with [([''home'', ''out''], Directory)]"
  let ?fs2 = "home_with (([''home'', ''out''], Directory) # map (\<lambda>name. ([''home'', ''out'', name], Regular)) ?names)"
  have h1: "2 \<le> length (tl ?argv)" by simp
  have h2: "path_exists ?os home (Path (?argv ! 1)) = Inr True"
    by (simp add: posix_os_def home_photo)
  have h3: "path_mkdir ?os home (Path (?argv ! 2)) = Inr ?fs1"
    by (simp add: posix_os_def home_mkdir_out)
  have h4: "subprocess_run ?os ?fs1 (sharp_args ?argv) =
              Completed \<lparr>returncode = 0, stdout = [], stderr = []\<rparr> ?fs2"
    by (simp add: sharp_args_def posix_defs path_defs world_defs)
  have h5: "returncode \<lparr>returncode = 0, stdout = [], stderr = []\<rparr> = 0" by simp
  have h6: "path_glob ?os ?fs2 (Path (?argv ! 2)) ''*.ply'' =
              Inr (\<lparr>root = [], tail = [''out'', ''model.ply'']\<rparr> # [\<lparr>root = [], tail = [''out'', ''extra.ply'']\<rparr>])"
    by (simp add: posix_defs path_defs world_defs)
  have fl: "files_left (main ?os ?argv home) = ?fs2"
    using main_complete [OF _ h2 h3 h4 h5 h6] by (simp add: run_defs)
  show ?thesis
    using h1 h2 h6 fl complete_message_on_success [OF h1 h2 h3 h4 h5 h6]
    by (simp add: Let_def str_def)
qed

section \<open>The output directory\<close>




section \<open>Standard output\<close>

text \<open>
  Claim C8. On every run that reaches a terminal state (\<open>terminal_state\<close>: the script
  ended through \<^verbatim>\<open>sys.exit\<close> or by returning), exactly one terminal JSON object, an
  ErrorMessage or a CompleteMessage, has been written to standard output, and it is the
  last line. On every run that reaches the subprocess call, however that call ends,
  exactly one StartingMessage is written, and it has been flushed, so that it has
  reached the reader of standard output, before the call begins. The runs that end in
  an uncaught exception are the fatal, unhandled path of section 7 of the
  specification and write no terminal object. The witness has two runs: one that
  completes, and one in which the tool never exits, where the StartingMessage has
  reached the reader although the process never ends.
\<close>

theorem one_terminal_message_and_flushed_start:
  "(terminal_state (snd (main os argv fs)) \<longrightarrow>
      emitted (main os argv fs) \<noteq> []
      \<and> filter is_terminal (emitted (main os argv fs)) = [last (emitted (main os argv fs))])
   \<and> ((\<exists>e \<in> set (effects (main os argv fs)). is_spawn e) \<longrightarrow>
      filter is_starting (emitted (main os argv fs)) = [starting_message]
      \<and> flushed (before_spawn (effects (main os argv fs))) [] = [starting_message])"
proof (cases rule: main_cases [where argv = argv and os = os and fs = fs])
  case usage
  then show ?thesis
    by (simp add: main_usage run_defs is_terminal_def)
next
  case (stat_raises e)
  then show ?thesis
    by (simp add: main_stat_raises run_defs)
next
  case not_found
  then show ?thesis
    by (simp add: main_not_found run_defs is_terminal_def)
next
  case (mkdir_raises e)
  then show ?thesis
    by (simp add: main_mkdir_raises run_defs)
next
  case (run_raises fs1 e)
  then show ?thesis
    by (simp add: main_run_raises run_defs before_spawn_def)
next
  case (run_blocks fs1)
  then show ?thesis
    by (simp add: main_run_blocks run_defs before_spawn_def)
next
  case (tool_failed fs1 res fs2)
  then show ?thesis
    by (simp add: main_tool_failed run_defs before_spawn_def is_terminal_def)
next
  case (glob_raises fs1 res fs2 e)
  then show ?thesis
    by (simp add: main_glob_raises run_defs before_spawn_def)
next
  case (no_ply fs1 res fs2)
  then show ?thesis
    by (simp add: main_no_ply run_defs before_spawn_def is_terminal_def)
next
  case (complete fs1 res fs2 ply rest)
  then show ?thesis
    by (simp add: main_complete run_defs before_spawn_def is_terminal_def)
qed

theorem one_terminal_message_and_flushed_start_witness:
  "(let argv = [''generate_splat.py'', ''photo.png'', ''out''];
        r = main (posix_os (sharp_writes [''model.ply''])) argv home;
        h = main (posix_os sharp_hangs) argv home
    in terminal_state (snd r)
       \<and> Spawn [''sharp'', ''predict'', ''-i'', ''photo.png'', ''-o'', ''out''] \<in> set (effects r)
       \<and> emitted r \<noteq> []
       \<and> filter is_terminal (emitted r) =
           [[(''status'', ''complete''), (''output_path'', ''out/model.ply''),
             (''message'', ''3D splat generated successfully!'')]]
       \<and> last (emitted r) =
           [(''status'', ''complete''), (''output_path'', ''out/model.ply''),
            (''message'', ''3D splat generated successfully!'')]
       \<and> filter is_starting (emitted r) = [starting_message]
       \<and> flushed (before_spawn (effects r)) [] = [starting_message]
       \<and> snd h = Blocked
       \<and> Spawn [''sharp'', ''predict'', ''-i'', ''photo.png'', ''-o'', ''out''] \<in> set (effects h)
       \<and> filter is_starting (emitted h) = [starting_message]
       \<and> flushed (before_spawn (effects h)) [] = [starting_message])"
proof -
  let ?argv = "[''generate_splat.py'', ''photo.png'', ''out'']"
  let ?r = "main (posix_os (sharp_writes [''model.ply''])) ?argv home"
  let ?h = "main (posix_os sharp_hangs) ?argv home"
  have h1: "terminal_state (snd ?r)"
    by code_simp
  have sp: "Spawn [''sharp'', ''predict'', ''-i'', ''photo.png'', ''-o'', ''out''] \<in> set (effects ?r)"
    by code_simp
  then have h2: "\<exists>e \<in> set (effects ?r). is_spawn e"
    by (rule bexI [rotated]) simp
  have l: "last (emitted ?r) =
           [(''status'', ''complete''), (''output_path'', ''out/model.ply''),
            (''message'', ''3D splat generated successfully!'')]"
    by code_simp
  note finished = one_terminal_message_and_flushed_start
    [of "posix_os (sharp_writes [''model.ply''])" ?argv home]
  from finished h1 have t: "emitted ?r \<noteq> [] \<and> filter is_terminal (emitted ?r) = [last (emitted ?r)]"
    by blast
  from finished h2 have s: "filter is_starting (emitted ?r) = [starting_message]
      \<and> flushed (before_spawn (effects ?r)) [] = [starting_message]"
    by blast
  have b: "snd ?h = Blocked"
    by code_simp
  have sp': "Spawn [''sharp'', ''predict'', ''-i'', ''photo.png'', ''-o'', ''out''] \<in> set (effects ?h)"
    by code_simp
  then have h3: "\<exists>e \<in> set (effects ?h). is_spawn e"
    by (rule bexI [rotated]) simp
  note hanging = one_terminal_message_and_flushed_start [of "posix_os sharp_hangs" ?argv home]
  from hanging h3 have s': "filter is_starting (emitted ?h) = [starting_message]
      \<and> flushed (before_spawn (effects ?h)) [] = [starting_message]"
    by blast
  from h1 sp t s l b sp' s' show ?thesis
    by (simp add: Let_def)
qed

end
